theory Spec2Isabelle
  imports Complex_Main
begin

section \<open>The trading ledger of app.py\<close>

text \<open>
  The model follows \<^verbatim>\<open>src/app.py\<close>: the three SQLite tables, the global trading engine with
  its current price, and the request handlers \<^verbatim>\<open>deposit\<close>, \<^verbatim>\<open>trade\<close> and \<^verbatim>\<open>close_trade\<close>.

  Numbers. The source computes with Python floats (SQLite \<^verbatim>\<open>REAL\<close>). Here every amount is an
  exact rational: the IEEE rounding error of each float operation, and the values \<^verbatim>\<open>nan\<close> and
  \<^verbatim>\<open>inf\<close>, are outside the model. \<^verbatim>\<open>round(x, 2)\<close> is Python's rounding of the exact value to
  two decimal places, ties to the even neighbour. \<^verbatim>\<open>leverage\<close> is a Python \<^verbatim>\<open>int\<close>.

  Requests. A handler receives its form fields already parsed by \<^verbatim>\<open>float\<close> and \<^verbatim>\<open>int\<close>; a
  field that does not parse raises before the database is read. Each handler runs from its
  first statement to \<^verbatim>\<open>db.commit()\<close> on its own: neither another request nor the timer
  that refreshes the price is interleaved with it, so the three readings of
  \<^verbatim>\<open>trading_engine.btc_price\<close> in \<^verbatim>\<open>trade\<close> give one value.
\<close>

subsection \<open>Tables\<close>

text \<open>A row of table \<^verbatim>\<open>trades\<close>. Timestamps are readings of a clock, given as naturals.\<close>

record trade_row =
  t_id :: nat
  t_user_id :: nat
  t_type :: string
  t_amount :: rat
  t_entry_price :: rat
  t_leverage :: int
  t_fee :: rat
  t_pnl :: rat
  t_status :: string
  t_created_at :: nat
  t_closed_at :: "nat option"

text \<open>A row of table \<^verbatim>\<open>deposits\<close>.\<close>

record deposit_row =
  d_id :: nat
  d_user_id :: nat
  d_amount :: rat
  d_status :: string
  d_created_at :: nat

text \<open>
  The database together with \<^verbatim>\<open>trading_engine.btc_price\<close>. Of table \<^verbatim>\<open>users\<close> only the column
  \<^verbatim>\<open>balance\<close> is read or written by the handlers below, so the table is the map from a user's
  id to the balance.
\<close>

record state =
  users :: "nat \<rightharpoonup> rat"
  trades :: "trade_row list"
  deposits :: "deposit_row list"
  btc_price :: rat

text \<open>What a handler answers: a redirect, a JSON body with its HTTP status, or the
  response 500 that Flask makes of an uncaught exception.\<close>

datatype response =
  Redirect string
  | Json_success
  | Json_error string nat
  | Server_error

subsection \<open>Rounding\<close>

definition round_half_even :: "rat \<Rightarrow> int" where
  "round_half_even y =
     (let n = \<lfloor>y\<rfloor>; f = y - of_int n
      in if f < 1 / 2 then n
         else if 1 / 2 < f then n + 1
         else if even n then n else n + 1)"

definition round2 :: "rat \<Rightarrow> rat" where
  "round2 x = of_int (round_half_even (x * 100)) / 100"

subsection \<open>The price feed\<close>

text \<open>
  What the request to the exchange gives: an exception of \<^verbatim>\<open>requests.get\<close>, a body that is
  not the expected JSON (no key \<^verbatim>\<open>price\<close>, or a value \<^verbatim>\<open>float\<close> rejects), or a price.
\<close>

datatype upstream = Network_error | Timeout | Malformed | Price rat

text \<open>\<^verbatim>\<open>random.uniform(a, b)\<close> is \<^verbatim>\<open>a + (b - a) * random()\<close>, where the draw \<^verbatim>\<open>random()\<close> lies in
  \<open>[0, 1)\<close>. The draw is an argument.\<close>

definition uniform :: "rat \<Rightarrow> rat \<Rightarrow> rat \<Rightarrow> rat" where
  "uniform a b u = a + (b - a) * u"

definition get_btc_price :: "upstream \<Rightarrow> rat \<Rightarrow> rat" where
  "get_btc_price up u =
     (case up of
        Price p \<Rightarrow> p
      | _ \<Rightarrow> round2 (uniform 30000 60000 u))"

definition update_price :: "upstream \<Rightarrow> rat \<Rightarrow> state \<Rightarrow> state" where
  "update_price up u st = st\<lparr>btc_price := get_btc_price up u\<rparr>"

subsection \<open>Profit and loss\<close>

definition calculate_pnl :: "trade_row \<Rightarrow> rat \<Rightarrow> rat" where
  "calculate_pnl trade current_price =
     (let pnl =
        (if t_type trade = ''long''
         then (current_price - t_entry_price trade) * t_amount trade * of_int (t_leverage trade)
         else (t_entry_price trade - current_price) * t_amount trade * of_int (t_leverage trade))
      in round2 (pnl - t_entry_price trade * t_amount trade * t_fee trade))"

subsection \<open>The handlers\<close>

text \<open>Each handler takes the session's \<^verbatim>\<open>user_id\<close> (\<open>None\<close>: not logged in), the clock's
  reading for \<^verbatim>\<open>CURRENT_TIMESTAMP\<close>, its form fields, and the state; it returns the response
  and the state after \<^verbatim>\<open>db.commit()\<close>.\<close>

text \<open>\<^verbatim>\<open>AUTOINCREMENT\<close>: one more than the largest id of the table, whose rows are never deleted.\<close>

definition next_id :: "nat list \<Rightarrow> nat" where
  "next_id ids = Suc (fold max ids 0)"

text \<open>\<^verbatim>\<open>UPDATE users SET balance = balance + ? WHERE id = ?\<close>: no row, no change.\<close>

definition add_balance :: "nat \<Rightarrow> rat \<Rightarrow> (nat \<rightharpoonup> rat) \<Rightarrow> (nat \<rightharpoonup> rat)" where
  "add_balance user_id x us =
     (case us user_id of None \<Rightarrow> us | Some b \<Rightarrow> us(user_id \<mapsto> b + x))"


definition required_margin :: "rat \<Rightarrow> rat \<Rightarrow> int \<Rightarrow> rat" where
  "required_margin price amount leverage = price * amount * of_int leverage * (1 / 100)"

definition required_fee :: "rat \<Rightarrow> rat \<Rightarrow> rat" where
  "required_fee price amount = price * amount * (1 / 1000)"

definition new_trade :: "state \<Rightarrow> nat \<Rightarrow> nat \<Rightarrow> string \<Rightarrow> rat \<Rightarrow> int \<Rightarrow> rat \<Rightarrow> trade_row" where
  "new_trade st user_id now trade_type amount leverage fee =
     \<lparr>t_id = next_id (map t_id (trades st)), t_user_id = user_id, t_type = trade_type,
      t_amount = amount, t_entry_price = btc_price st, t_leverage = leverage, t_fee = fee,
      t_pnl = 0, t_status = ''open'', t_created_at = now, t_closed_at = None\<rparr>"

definition trade :: "nat option \<Rightarrow> nat \<Rightarrow> string \<Rightarrow> rat \<Rightarrow> int \<Rightarrow> state \<Rightarrow> response \<times> state" where
  "trade session now trade_type amount leverage st =
     (case session of
        None \<Rightarrow> (Json_error ''Not logged in'' 401, st)
      | Some user_id \<Rightarrow>
          (case users st user_id of
             None \<Rightarrow> (Server_error, st)
           | Some balance \<Rightarrow>
               if balance < required_margin (btc_price st) amount leverage
               then (Json_error ''Insufficient balance'' 400, st)
               else
                 let fee = required_fee (btc_price st) amount
                 in (Json_success,
                     st\<lparr>trades := trades st @
                          [new_trade st user_id now trade_type amount leverage fee],
                        users := add_balance user_id
                          (- (required_margin (btc_price st) amount leverage + fee))
                          (users st)\<rparr>)))"

text \<open>\<^verbatim>\<open>SELECT * FROM trades WHERE id = ? AND user_id = ?\<close>, then \<^verbatim>\<open>fetchone()\<close>.\<close>

definition select_trade :: "nat \<Rightarrow> nat \<Rightarrow> trade_row list \<Rightarrow> trade_row option" where
  "select_trade trade_id user_id ts =
     find (\<lambda>t. t_id t = trade_id \<and> t_user_id t = user_id) ts"

text \<open>\<^verbatim>\<open>UPDATE trades SET status = 'closed', pnl = ?, closed_at = CURRENT_TIMESTAMP WHERE id = ?\<close>.\<close>

definition mark_closed :: "nat \<Rightarrow> rat \<Rightarrow> nat \<Rightarrow> trade_row list \<Rightarrow> trade_row list" where
  "mark_closed trade_id pnl now ts =
     map (\<lambda>t. if t_id t = trade_id
               then t\<lparr>t_status := ''closed'', t_pnl := pnl, t_closed_at := Some now\<rparr>
               else t) ts"

definition close_trade :: "nat option \<Rightarrow> nat \<Rightarrow> nat \<Rightarrow> state \<Rightarrow> response \<times> state" where
  "close_trade session now trade_id st =
     (case session of
        None \<Rightarrow> (Redirect ''login'', st)
      | Some user_id \<Rightarrow>
          (case select_trade trade_id user_id (trades st) of
             None \<Rightarrow> (Redirect ''index'', st)
           | Some tr \<Rightarrow>
               let pnl = calculate_pnl tr (btc_price st)
               in (Redirect ''index'',
                   st\<lparr>trades := mark_closed trade_id pnl now (trades st),
                      users := add_balance user_id pnl (users st)\<rparr>)))"

subsection \<open>Sequences of requests\<close>








subsection \<open>Example data\<close>

text \<open>A row whose column \<^verbatim>\<open>fee\<close> holds the default of the schema, the rate 0.001.\<close>

definition example_long :: trade_row where
  "example_long =
     \<lparr>t_id = 1, t_user_id = 1, t_type = ''long'', t_amount = 1 / 10, t_entry_price = 50000,
      t_leverage = 10, t_fee = 1 / 1000, t_pnl = 0, t_status = ''open'', t_created_at = 0,
      t_closed_at = None\<rparr>"

text \<open>A database with the one account 1, at the schema's default balance.\<close>

definition example_state :: state where
  "example_state = \<lparr>users = [1 \<mapsto> 10000], trades = [], deposits = [], btc_price = 50000\<rparr>"

text \<open>The scenario: user 1 with balance 10000 opens a long of 0.1 at leverage 10 while the
  price is 50000, and closes it after the price has moved to 51000.\<close>

definition scenario_row :: trade_row where
  "scenario_row =
     \<lparr>t_id = 1, t_user_id = 1, t_type = ''long'', t_amount = 1 / 10, t_entry_price = 50000,
      t_leverage = 10, t_fee = 5, t_pnl = 0, t_status = ''open'', t_created_at = 0,
      t_closed_at = None\<rparr>"

definition scenario_opened :: state where
  "scenario_opened = snd (trade (Some 1) 0 ''long'' (1 / 10) 10 example_state)"

definition scenario_closed :: state where
  "scenario_closed = snd (close_trade (Some 1) 1 1 (scenario_opened\<lparr>btc_price := 51000\<rparr>))"






section \<open>Properties of rounding\<close>



lemma round_half_even_of_int: "round_half_even (of_int k) = k"
  unfolding round_half_even_def Let_def by simp

lemma round_half_even_ge: "of_int k \<le> y \<Longrightarrow> k \<le> round_half_even y"
proof -
  assume "of_int k \<le> y"
  then have "k \<le> \<lfloor>y\<rfloor>" by (simp add: le_floor_iff)
  then show ?thesis unfolding round_half_even_def Let_def by auto
qed

lemma round_half_even_le: "y \<le> of_int k \<Longrightarrow> round_half_even y \<le> k"
proof (cases "y = of_int k")
  case True
  then show ?thesis by (simp add: round_half_even_of_int)
next
  case False
  assume "y \<le> of_int k"
  with False have "y < of_int k" by simp
  then have "\<lfloor>y\<rfloor> < k" by (simp add: floor_less_iff)
  then show ?thesis unfolding round_half_even_def Let_def by auto
qed

lemma round2_grid: "\<exists>k::int. round2 x = of_int k / 100"
  unfolding round2_def by blast



section \<open>Profit and loss of a position\<close>



section \<open>The scenario of one open and one close\<close>

lemma scenario_opened_state:
  "scenario_opened =
     \<lparr>users = [1 \<mapsto> 9495], trades = [scenario_row], deposits = [], btc_price = 50000\<rparr>"
  unfolding scenario_opened_def
  by (simp add: trade_def example_state_def required_margin_def required_fee_def new_trade_def
      next_id_def add_balance_def scenario_row_def)

lemma scenario_pnl: "calculate_pnl scenario_row 51000 = - 24000"
  by (simp add: calculate_pnl_def scenario_row_def round2_def round_half_even_def)

lemma scenario_select: "select_trade 1 1 [scenario_row] = Some scenario_row"
  by (simp add: select_trade_def scenario_row_def)

lemma scenario_closed_state:
  "scenario_closed =
     \<lparr>users = [1 \<mapsto> - 14505],
      trades = [scenario_row\<lparr>t_status := ''closed'', t_pnl := - 24000, t_closed_at := Some 1\<rparr>],
      deposits = [], btc_price = 51000\<rparr>"
  unfolding scenario_closed_def scenario_opened_state
  by (simp add: close_trade_def scenario_select[simplified] scenario_pnl
       mark_closed_def add_balance_def)
     (simp add: scenario_row_def)

text \<open>
  C1, as stated, fails on the code. With price 50000, amount 0.1 and leverage 10 the margin
  \<open>price * amount * leverage * 0.01\<close> is 500, not 5000, so the balance after the open is
  9495, not 4995. The row stores the fee 5 in column \<^verbatim>\<open>fee\<close>, which \<^verbatim>\<open>calculate_pnl\<close> multiplies
  with \<open>entry_price * amount\<close>: the close at 51000 records the profit and loss -24000, not
  995, and leaves the balance -14505, not 5990.
\<close>

theorem scenario_counterexample:
  "required_margin 50000 (1 / 10) 10 = 500
   \<and> users scenario_opened 1 = Some 9495
   \<and> users scenario_opened 1 \<noteq> Some 4995
   \<and> map t_pnl (trades scenario_closed) = [- 24000]
   \<and> users scenario_closed 1 = Some (- 14505)
   \<and> users scenario_closed 1 \<noteq> Some 5990"
  by (simp add: scenario_opened_state scenario_closed_state required_margin_def)

text \<open>
  C1, amended. From balance 10000, the open of a long of 0.1 at leverage 10 and price 50000
  succeeds, debits the margin 500 and the fee 5 and leaves the balance 9495 with one open
  position. The close of that position at price 51000 marks it closed, records the value of
  \<^verbatim>\<open>calculate_pnl\<close> for the stored row at 51000 and adds it to the balance.
\<close>

theorem scenario_open_close:
  "fst (trade (Some 1) 0 ''long'' (1 / 10) 10 example_state) = Json_success
   \<and> required_margin (btc_price example_state) (1 / 10) 10 = 500
   \<and> required_fee (btc_price example_state) (1 / 10) = 5
   \<and> users example_state 1 = Some 10000
   \<and> users scenario_opened 1 = Some 9495
   \<and> map t_status (trades scenario_opened) = [''open'']
   \<and> fst (close_trade (Some 1) 1 1 (scenario_opened\<lparr>btc_price := 51000\<rparr>)) = Redirect ''index''
   \<and> map t_status (trades scenario_closed) = [''closed'']
   \<and> map t_pnl (trades scenario_closed) = [calculate_pnl (hd (trades scenario_opened)) 51000]
   \<and> users scenario_closed 1 = Some (9495 + calculate_pnl (hd (trades scenario_opened)) 51000)"
proof -
  have "fst (trade (Some 1) 0 ''long'' (1 / 10) 10 example_state) = Json_success"
    by (simp add: trade_def example_state_def required_margin_def Let_def)
  moreover have "required_margin (btc_price example_state) (1 / 10) 10 = 500"
    by (simp add: example_state_def required_margin_def)
  moreover have "required_fee (btc_price example_state) (1 / 10) = 5"
    by (simp add: example_state_def required_fee_def)
  moreover have "users example_state 1 = Some 10000"
    by (simp add: example_state_def)
  moreover have "fst (close_trade (Some 1) 1 1 (scenario_opened\<lparr>btc_price := 51000\<rparr>))
      = Redirect ''index''"
    unfolding scenario_opened_state
    by (simp add: close_trade_def scenario_select[simplified] Let_def)
  moreover have "calculate_pnl (hd (trades scenario_opened)) 51000 = - 24000"
    by (simp add: scenario_opened_state scenario_pnl)
  ultimately show ?thesis
    by (simp add: scenario_opened_state scenario_closed_state) (simp add: scenario_row_def)
qed

section \<open>Closing what cannot be closed\<close>





section \<open>What the handlers do for a logged-in user\<close>




section \<open>The margin check of an open\<close>




section \<open>Deposits\<close>




section \<open>The sign of the balance\<close>




section \<open>Fields that are not validated\<close>

lemma calculate_pnl_not_long:
  "t_type tr \<noteq> ''long'' \<Longrightarrow> calculate_pnl tr p = calculate_pnl (tr\<lparr>t_type := ''short''\<rparr>) p"
  by (simp add: calculate_pnl_def)

lemma trade_response_side:
  "fst (trade session now side a l st) = fst (trade session now side' a l st)"
  by (simp add: trade_def Let_def split: option.splits)

text \<open>
  C9. \<^verbatim>\<open>trade\<close> takes the side as any string: its answer is the one it gives for \<^verbatim>\<open>long\<close>, and
  on success the new row carries the string as it came. \<^verbatim>\<open>calculate_pnl\<close> treats every side
  other than the exact string \<^verbatim>\<open>long\<close>, a misspelling or the empty string included, as it
  treats \<^verbatim>\<open>short\<close>.
\<close>

theorem side_not_validated:
  "fst (trade session now side a l st) = fst (trade session now ''long'' a l st)
   \<and> (fst (trade session now side a l st) = Json_success \<longrightarrow>
        map t_type (trades (snd (trade session now side a l st))) = map t_type (trades st) @ [side])
   \<and> (t_type tr = side \<and> side \<noteq> ''long'' \<longrightarrow>
        calculate_pnl tr p = calculate_pnl (tr\<lparr>t_type := ''short''\<rparr>) p
        \<and> calculate_pnl tr p =
            round2 ((t_entry_price tr - p) * t_amount tr * of_int (t_leverage tr)
                    - t_entry_price tr * t_amount tr * t_fee tr))"
proof -
  have "fst (trade session now side a l st) = fst (trade session now ''long'' a l st)"
    by (rule trade_response_side)
  moreover have "fst (trade session now side a l st) = Json_success \<longrightarrow>
        map t_type (trades (snd (trade session now side a l st))) = map t_type (trades st) @ [side]"
    by (auto simp: trade_def Let_def new_trade_def split: option.splits if_splits)
  moreover have "t_type tr = side \<and> side \<noteq> ''long'' \<longrightarrow>
        calculate_pnl tr p = calculate_pnl (tr\<lparr>t_type := ''short''\<rparr>) p
        \<and> calculate_pnl tr p =
            round2 ((t_entry_price tr - p) * t_amount tr * of_int (t_leverage tr)
                    - t_entry_price tr * t_amount tr * t_fee tr)"
    by (auto simp: calculate_pnl_def)
  ultimately show ?thesis by blast
qed

theorem side_not_validated_witness:
  "fst (trade (Some 1) 0 ''lnog'' (1 / 10) 10 example_state) = Json_success
   \<and> map t_type (trades (snd (trade (Some 1) 0 ''lnog'' (1 / 10) 10 example_state))) = [''lnog'']
   \<and> t_type (example_long\<lparr>t_type := ''''\<rparr>) = ''''
   \<and> calculate_pnl (example_long\<lparr>t_type := ''''\<rparr>) 51000 = - 1005
   \<and> calculate_pnl (example_long\<lparr>t_type := ''short''\<rparr>) 51000 = - 1005"
proof -
  have a: "fst (trade (Some 1) 0 ''long'' (1 / 10) 10 example_state) = Json_success"
    by (simp add: trade_def example_state_def required_margin_def Let_def)
  have b: "calculate_pnl (example_long\<lparr>t_type := ''short''\<rparr>) 51000 = - 1005"
    by (simp add: calculate_pnl_def example_long_def round2_def round_half_even_def)
  show ?thesis
    using a b side_not_validated [of "Some 1" 0 "''lnog''" "1 / 10" 10 example_state]
      side_not_validated [of _ _ "''''" _ _ _ "example_long\<lparr>t_type := ''''\<rparr>" 51000]
    by (simp add: example_state_def)
qed






section \<open>The price feed\<close>

lemma round2_between:
  "of_int lo / 100 \<le> x \<Longrightarrow> x \<le> of_int hi / 100
   \<Longrightarrow> of_int lo / 100 \<le> round2 x \<and> round2 x \<le> of_int hi / 100"
proof -
  assume "of_int lo / 100 \<le> x" and "x \<le> of_int hi / 100"
  then have "of_int lo \<le> x * 100" and "x * 100 \<le> of_int hi"
    by (simp_all add: field_simps)
  then have "lo \<le> round_half_even (x * 100)" and "round_half_even (x * 100) \<le> hi"
    by (simp_all add: round_half_even_ge round_half_even_le)
  then have "(of_int lo :: rat) \<le> of_int (round_half_even (x * 100))"
    and "(of_int (round_half_even (x * 100)) :: rat) \<le> of_int hi"
    by simp_all
  then show ?thesis
    unfolding round2_def by (simp add: divide_right_mono)
qed

lemma fallback_range:
  "0 \<le> u \<Longrightarrow> u < 1 \<Longrightarrow>
   30000 \<le> round2 (uniform 30000 60000 u) \<and> round2 (uniform 30000 60000 u) \<le> 60000"
proof -
  assume "0 \<le> u" and "u < 1"
  then have "of_int 3000000 / 100 \<le> uniform 30000 60000 u"
    and "uniform 30000 60000 u \<le> of_int 6000000 / 100"
    by (simp_all add: uniform_def)
  then have "of_int 3000000 / 100 \<le> round2 (uniform 30000 60000 u)
     \<and> round2 (uniform 30000 60000 u) \<le> of_int 6000000 / 100"
    by (rule round2_between)
  then show ?thesis by simp
qed

text \<open>
  C8, as stated, fails on the code. \<^verbatim>\<open>get_btc_price\<close> returns whatever number the body of the
  exchange's answer carries: for the price 0 it returns 0, for -1 it returns -1, neither
  strictly positive, and no fallback takes their place.
\<close>

theorem price_not_positive_counterexample:
  "get_btc_price (Price 0) (1 / 2) = 0
   \<and> \<not> 0 < get_btc_price (Price 0) (1 / 2)
   \<and> get_btc_price (Price (- 1)) (1 / 2) = - 1"
  by (simp add: get_btc_price_def)

text \<open>
  C8, amended. When the exchange's answer, if it carries a price, carries a positive one,
  \<^verbatim>\<open>get_btc_price\<close> returns a strictly positive value. On every failure of the request
  (network error, timeout, malformed body) it returns, rather than an error, the fallback
  \<open>round(uniform(30000, 60000), 2)\<close> for the draw \<open>u\<close> of \<^verbatim>\<open>random()\<close> in \<open>[0, 1)\<close>: a value in
  \<open>[30000, 60000]\<close> that is a whole number of hundredths. \<^verbatim>\<open>update_price\<close> stores what
  \<^verbatim>\<open>get_btc_price\<close> returns. The distribution of the draw is not part of the model.
\<close>

theorem price_refresh:
  "0 \<le> u \<Longrightarrow> u < 1 \<Longrightarrow> \<forall>p. up = Price p \<longrightarrow> 0 < p \<Longrightarrow>
   0 < get_btc_price up u
   \<and> (up \<in> {Network_error, Timeout, Malformed} \<longrightarrow>
        get_btc_price up u = round2 (uniform 30000 60000 u)
        \<and> 30000 \<le> get_btc_price up u \<and> get_btc_price up u \<le> 60000
        \<and> (\<exists>k::int. get_btc_price up u = of_int k / 100))
   \<and> btc_price (update_price up u st) = get_btc_price up u"
proof -
  assume u: "0 \<le> u" "u < 1" and p: "\<forall>p. up = Price p \<longrightarrow> 0 < p"
  have r: "30000 \<le> round2 (uniform 30000 60000 u) \<and> round2 (uniform 30000 60000 u) \<le> 60000"
    using u by (rule fallback_range)
  have g: "\<exists>k::int. round2 (uniform 30000 60000 u) = of_int k / 100"
    by (rule round2_grid)
  show ?thesis
  proof (cases up)
    case (Price q)
    with p show ?thesis by (simp add: get_btc_price_def update_price_def)
  next
    case Network_error
    with r g show ?thesis by (simp add: get_btc_price_def update_price_def)
  next
    case Timeout
    with r g show ?thesis by (simp add: get_btc_price_def update_price_def)
  next
    case Malformed
    with r g show ?thesis by (simp add: get_btc_price_def update_price_def)
  qed
qed

theorem price_refresh_witness:
  "(0::rat) \<le> 1 / 3 \<and> (1 / 3 :: rat) < 1
   \<and> uniform 30000 60000 (1 / 3) = 40000
   \<and> get_btc_price Timeout (1 / 3) = 40000
   \<and> 0 < get_btc_price Timeout (1 / 3)
   \<and> get_btc_price (Price 43210) (1 / 3) = 43210
   \<and> 0 < get_btc_price (Price 43210) (1 / 3)"
proof -
  have a: "(0::rat) \<le> 1 / 3" and b: "(1 / 3 :: rat) < 1" by simp_all
  have c: "\<forall>p. Timeout = Price p \<longrightarrow> 0 < p" by simp
  have d: "\<forall>p. Price 43210 = Price p \<longrightarrow> 0 < p" by simp
  have e: "round2 (uniform 30000 60000 (1 / 3)) = 40000"
    by (simp add: uniform_def round2_def round_half_even_def)
  show ?thesis
    using e price_refresh [OF a b c] price_refresh [OF a b d]
    by (simp add: get_btc_price_def uniform_def)
qed

section \<open>The balance along a sequence of actions\<close>





end
